theory Spec2Isabelle
  imports Complex_Main
begin

section \<open>Floating-point values\<close>

text \<open>
  The simulation computes on Python floats and numpy \<open>float64\<close> arrays. A value is
  modelled as a real number, plus infinity, minus infinity, or NaN. Finite arithmetic
  is exact: rounding, overflow, underflow and the sign of zero are not modelled. The
  special values follow IEEE 754 as numpy applies it (a warning, never an exception):
  \<open>0/0\<close>, \<open>inf - inf\<close> and \<open>0 * inf\<close> are NaN, NaN propagates through every
  operation, and every comparison with NaN is false. Properties that hold in the
  program only up to rounding, such as the conservation of momentum and of energy in
  one collision, are not stated over this arithmetic.
\<close>

datatype fl = Fin real | PInf | NInf | NaN

instantiation fl :: "{uminus, plus, minus, times, inverse, ord}"
begin

fun uminus_fl :: "fl \<Rightarrow> fl" where
  "- (Fin a) = Fin (- a)"
| "- PInf = NInf"
| "- NInf = PInf"
| "- NaN = NaN"

fun plus_fl :: "fl \<Rightarrow> fl \<Rightarrow> fl" where
  "Fin a + Fin b = Fin (a + b)"
| "NaN + _ = NaN"
| "_ + NaN = NaN"
| "PInf + NInf = NaN"
| "NInf + PInf = NaN"
| "PInf + _ = PInf"
| "_ + PInf = PInf"
| "NInf + _ = NInf"
| "_ + NInf = NInf"

definition minus_fl :: "fl \<Rightarrow> fl \<Rightarrow> fl" where
  "a - b = a + (- b)" for a b :: fl

fun times_fl :: "fl \<Rightarrow> fl \<Rightarrow> fl" where
  "Fin a * Fin b = Fin (a * b)"
| "NaN * _ = NaN"
| "_ * NaN = NaN"
| "PInf * Fin b = (if b = 0 then NaN else if 0 < b then PInf else NInf)"
| "NInf * Fin b = (if b = 0 then NaN else if 0 < b then NInf else PInf)"
| "Fin a * PInf = (if a = 0 then NaN else if 0 < a then PInf else NInf)"
| "Fin a * NInf = (if a = 0 then NaN else if 0 < a then NInf else PInf)"
| "PInf * PInf = PInf"
| "PInf * NInf = NInf"
| "NInf * PInf = NInf"
| "NInf * NInf = PInf"

fun divide_fl :: "fl \<Rightarrow> fl \<Rightarrow> fl" where
  "divide (Fin a) (Fin b) =
     (if b \<noteq> 0 then Fin (a / b)
      else if a = 0 then NaN else if 0 < a then PInf else NInf)"
| "divide NaN _ = NaN"
| "divide _ NaN = NaN"
| "divide (Fin a) PInf = Fin 0"
| "divide (Fin a) NInf = Fin 0"
| "divide PInf (Fin b) = (if 0 \<le> b then PInf else NInf)"
| "divide NInf (Fin b) = (if 0 \<le> b then NInf else PInf)"
| "divide PInf PInf = NaN"
| "divide PInf NInf = NaN"
| "divide NInf PInf = NaN"
| "divide NInf NInf = NaN"

definition inverse_fl :: "fl \<Rightarrow> fl" where
  "inverse a = divide (Fin 1) a" for a :: fl

fun less_fl :: "fl \<Rightarrow> fl \<Rightarrow> bool" where
  "Fin a < Fin b = (a < b)"
| "NaN < _ = False"
| "_ < NaN = False"
| "NInf < Fin b = True"
| "NInf < PInf = True"
| "Fin a < PInf = True"
| "NInf < NInf = False"
| "PInf < _ = False"
| "Fin a < NInf = False"

fun less_eq_fl :: "fl \<Rightarrow> fl \<Rightarrow> bool" where
  "Fin a \<le> Fin b = (a \<le> b)"
| "NaN \<le> _ = False"
| "_ \<le> NaN = False"
| "NInf \<le> _ = True"
| "_ \<le> PInf = True"
| "PInf \<le> _ = False"
| "Fin a \<le> NInf = False"

instance ..

end

text \<open>The square root of \<open>scipy\<close>'s Euclidean distance.\<close>

fun fsqrt :: "fl \<Rightarrow> fl" where
  "fsqrt (Fin a) = (if a < 0 then NaN else Fin (sqrt a))"
| "fsqrt PInf = PInf"
| "fsqrt NInf = NaN"
| "fsqrt NaN = NaN"

section \<open>Rows of the position and velocity arrays\<close>

text \<open>
  \<open>self.pos\<close> and \<open>self.vel\<close> are arrays of shape \<open>(partCount, 3)\<close>; a row is a
  triple of floats, and the columns 0, 1, 2 are the axes \<open>X\<close>, \<open>Y\<close>, \<open>Z\<close>.
  Arithmetic on rows is componentwise, as numpy's.
\<close>

datatype vec3 = Vec3 fl fl fl

datatype axis = X | Y | Z

fun coord :: "vec3 \<Rightarrow> axis \<Rightarrow> fl" where
  "coord (Vec3 x y z) X = x"
| "coord (Vec3 x y z) Y = y"
| "coord (Vec3 x y z) Z = z"

fun set_coord :: "vec3 \<Rightarrow> axis \<Rightarrow> fl \<Rightarrow> vec3" where
  "set_coord (Vec3 x y z) X c = Vec3 c y z"
| "set_coord (Vec3 x y z) Y c = Vec3 x c z"
| "set_coord (Vec3 x y z) Z c = Vec3 x y c"

instantiation vec3 :: "{plus, minus}"
begin

fun plus_vec3 :: "vec3 \<Rightarrow> vec3 \<Rightarrow> vec3" where
  "Vec3 a b c + Vec3 x y z = Vec3 (a + x) (b + y) (c + z)"

fun minus_vec3 :: "vec3 \<Rightarrow> vec3 \<Rightarrow> vec3" where
  "Vec3 a b c - Vec3 x y z = Vec3 (a - x) (b - y) (c - z)"

instance ..

end

text \<open>Scalar times row, row times scalar, row divided by scalar, \<open>np.dot\<close>.\<close>

fun smul :: "fl \<Rightarrow> vec3 \<Rightarrow> vec3" where
  "smul k (Vec3 x y z) = Vec3 (k * x) (k * y) (k * z)"

fun vmul :: "vec3 \<Rightarrow> fl \<Rightarrow> vec3" where
  "vmul (Vec3 x y z) k = Vec3 (x * k) (y * k) (z * k)"

fun vdiv :: "vec3 \<Rightarrow> fl \<Rightarrow> vec3" where
  "vdiv (Vec3 x y z) k = Vec3 (x / k) (y / k) (z / k)"

fun dot :: "vec3 \<Rightarrow> vec3 \<Rightarrow> fl" where
  "dot (Vec3 a b c) (Vec3 x y z) = a * x + b * y + c * z"

text \<open>
  \<open>pdist\<close> with its default metric: the square root of the sum of the squared
  differences of the components.
\<close>

fun euclidean :: "vec3 \<Rightarrow> vec3 \<Rightarrow> fl" where
  "euclidean (Vec3 a b c) (Vec3 x y z) =
     fsqrt ((a - x) * (a - x) + (b - y) * (b - y) + (c - z) * (c - z))"

section \<open>The simulation object\<close>

text \<open>
  The attributes of a \<open>GasSimulation3d\<close> object that the initialiser and the
  integrator read or write. \<open>partBelonging\<close> is \<open>None\<close> as long as the attribute
  has not been assigned. The derived quantity \<open>b\<close>, the empty dictionary
  \<open>particleCell\<close> and the matplotlib handles are never read by the simulation and
  are not kept; the exception that the computation of \<open>b\<close> can raise is part of
  \<open>init_fields\<close> below.
\<close>

record GasSimulation3d =
  partCount :: nat
  mass :: real
  radius :: fl
  volume :: real
  temp :: real
  pos :: "vec3 list"
  vel :: "vec3 list"
  cubicParts1 :: nat
  cubicParts2 :: nat
  sideLength :: fl
  velNormalized :: fl
  partBelonging :: "fl list list option"

section \<open>Step\<close>

text \<open>
  \<open>squareform(pdist(self.pos))\<close>: the symmetric matrix of the pairwise distances,
  zero on the diagonal; \<open>pdist\<close> computes the entry of row \<open>i\<close> and column \<open>j\<close>
  for \<open>i < j\<close>.
\<close>

definition distances :: "vec3 list \<Rightarrow> nat \<Rightarrow> nat \<Rightarrow> fl" where
  "distances ps i j =
     (if i = j then Fin 0
      else if i < j then euclidean (ps ! i) (ps ! j)
      else euclidean (ps ! j) (ps ! i))"

text \<open>
  \<open>np.where(distances < 2 * self.radius)\<close> lists the index pairs in row-major
  order; the mask \<open>ind1 < ind2\<close> keeps each unordered pair once, in the same order.
\<close>

definition collision_pairs :: "vec3 list \<Rightarrow> fl \<Rightarrow> (nat \<times> nat) list" where
  "collision_pairs ps r =
     filter (\<lambda>(i1, i2). i1 < i2)
       (filter (\<lambda>(i1, i2). distances ps i1 i2 < Fin 2 * r)
          (List.product [0..<length ps] [0..<length ps]))"

text \<open>The body of the loop \<open>for i1, i2 in zip(ind1, ind2)\<close>.\<close>

definition collide :: "fl \<Rightarrow> GasSimulation3d \<Rightarrow> nat \<times> nat \<Rightarrow> GasSimulation3d" where
  "collide dt s p =
     (let i1 = fst p; i2 = snd p;
          vel_cm = vdiv (vel s ! i1 + vel s ! i2) (Fin 2);
          vec_normal = pos s ! i1 - pos s ! i2;
          vel_normal = vel s ! i1 - vel s ! i2;
          vel_change =
            vdiv (smul (Fin 2 * dot vec_normal vel_normal) vec_normal)
              (dot vec_normal vec_normal) - vel_normal;
          s = s\<lparr>vel := (vel s)[i1 := vel_cm - vdiv vel_change (Fin 2)]\<rparr>;
          s = s\<lparr>vel := (vel s)[i2 := vel_cm + vdiv vel_change (Fin 2)]\<rparr>;
          s = s\<lparr>pos := (pos s)[i1 := pos s ! i1 + vmul (vel s ! i1) dt]\<rparr>;
          s = s\<lparr>pos := (pos s)[i2 := pos s ! i2 + vmul (vel s ! i2) dt]\<rparr>
      in s)"

text \<open>
  The two tests the wall loop makes for particle \<open>i\<close> on one axis: the lower wall
  first, then the upper wall, each negating the velocity component before it moves
  the coordinate.
\<close>

definition lower_wall :: "nat \<Rightarrow> axis \<Rightarrow> GasSimulation3d \<Rightarrow> GasSimulation3d" where
  "lower_wall i a s =
     (if coord (pos s ! i) a - radius s < Fin 0
      then (let s = s\<lparr>vel := (vel s)[i := set_coord (vel s ! i) a (- coord (vel s ! i) a)]\<rparr>
            in s\<lparr>pos := (pos s)[i := set_coord (pos s ! i) a (radius s * Fin 1.01)]\<rparr>)
      else s)"

definition upper_wall :: "nat \<Rightarrow> axis \<Rightarrow> GasSimulation3d \<Rightarrow> GasSimulation3d" where
  "upper_wall i a s =
     (if sideLength s < coord (pos s ! i) a + radius s
      then (let s = s\<lparr>vel := (vel s)[i := set_coord (vel s ! i) a (- coord (vel s ! i) a)]\<rparr>
            in s\<lparr>pos := (pos s)[i := set_coord (pos s ! i) a
                                      (sideLength s - radius s * Fin 1.01)]\<rparr>)
      else s)"

text \<open>The body of the loop \<open>for i in range(self.partCount)\<close>: six tests in a row.\<close>

definition wall_particle :: "nat \<Rightarrow> GasSimulation3d \<Rightarrow> GasSimulation3d" where
  "wall_particle i s =
     upper_wall i Z (lower_wall i Z
       (upper_wall i Y (lower_wall i Y
         (upper_wall i X (lower_wall i X s)))))"

definition walls :: "GasSimulation3d \<Rightarrow> GasSimulation3d" where
  "walls s = fold wall_particle [0..<partCount s] s"

text \<open>The free flight \<open>self.pos = self.pos + self.vel * dt\<close>.\<close>

definition free_flight :: "GasSimulation3d \<Rightarrow> fl \<Rightarrow> GasSimulation3d" where
  "free_flight s dt = s\<lparr>pos := map2 (\<lambda>p v. p + vmul v dt) (pos s) (vel s)\<rparr>"

text \<open>
  \<open>Step(dt)\<close>: the free flight, the detection of the colliding pairs from the
  positions after the free flight, the resolution of the pairs one after the other,
  and the wall loop. The arrays \<open>pos\<close> and \<open>vel\<close> have \<open>partCount\<close> rows each
  (numpy refuses to add arrays of different shapes, and indexing past the last row
  raises); the theorems about \<open>Step\<close> state this where they need it. \<open>Step\<close> tests
  nothing else and raises nothing.
\<close>

definition Step :: "GasSimulation3d \<Rightarrow> fl \<Rightarrow> GasSimulation3d" where
  "Step s dt =
     (let s = free_flight s dt;
          pairs = collision_pairs (pos s) (radius s);
          s = foldl (collide dt) s pairs
      in walls s)"

section \<open>Construction\<close>

text \<open>The exceptions the constructor can raise, and sequencing that stops at the first.\<close>

datatype py_error =
  ValueError | OverflowError | ZeroDivisionError | AttributeError | TypeError | IndexError

definition and_then :: "py_error + 'a \<Rightarrow> ('a \<Rightarrow> py_error + 'b) \<Rightarrow> py_error + 'b" where
  "and_then m f = (case m of Inl e \<Rightarrow> Inl e | Inr x \<Rightarrow> f x)"

fun for_each :: "(nat \<Rightarrow> 'a \<Rightarrow> py_error + 'a) \<Rightarrow> nat list \<Rightarrow> 'a \<Rightarrow> py_error + 'a" where
  "for_each f [] x = Inr x"
| "for_each f (i # js) x = and_then (f i x) (for_each f js)"

text \<open>
  The constructor's arguments are an integer count and four finite floats. Python's
  \<open>x ** (1 / 3)\<close> and \<open>x ** (1 / 2)\<close> are the real roots for \<open>x \<ge> 0\<close>. For a negative
  \<open>x\<close> Python returns a complex number and raises nothing; complex values are outside
  this model, which writes NaN for them.
\<close>

definition pow_third :: "real \<Rightarrow> fl" where
  "pow_third x = (if 0 \<le> x then Fin (root 3 x) else NaN)"

definition pow_half :: "real \<Rightarrow> fl" where
  "pow_half x = (if 0 \<le> x then Fin (sqrt x) else NaN)"

text \<open>
  \<open>int(np.floor(n ** (1 / 3)))\<close> for a count \<open>n \<ge> 0\<close>. Here the rounding of the
  floats decides the result and is modelled: the float \<open>1 / 3\<close> lies below one third,
  and for a perfect cube \<open>n = k\<^sup>3\<close> with \<open>k \<ge> 4\<close> the float \<open>n ** (1 / 3)\<close> lies just
  below \<open>k\<close> (\<open>64 ** (1 / 3)\<close> is \<open>3.9999999999999996\<close>), so that the floor is
  \<open>k - 1\<close>. For \<open>1\<close>, \<open>8\<close> and \<open>27\<close> the float is the exact root, and between two
  cubes the floor of the float is the floor of the real root.
\<close>

definition cube_root_floor :: "nat \<Rightarrow> nat" where
  "cube_root_floor n =
     (let c = nat \<lfloor>root 3 (real n)\<rfloor> in if 4 \<le> c \<and> c ^ 3 = n then c - 1 else c)"

text \<open>
  Python's \<open>x ** 3\<close> on a float raises \<open>OverflowError\<close> when the result is not a
  finite float, that is when its magnitude reaches \<open>2 ^ 1024 - 2 ^ 970\<close>, the least real
  that rounds to infinity. (Products and quotients of floats that overflow give
  \<open>inf\<close> and raise nothing.)
\<close>

definition cube_overflows :: "real \<Rightarrow> bool" where
  "cube_overflows x = (2 ^ 1024 - 2 ^ 970 \<le> \<bar>x\<bar> ^ 3)"

definition zero3 :: vec3 where
  "zero3 = Vec3 (Fin 0) (Fin 0) (Fin 0)"

text \<open>
  Lines 19 to 35 of \<open>__init__\<close>. \<open>np.zeros((particlesCount, 3))\<close> at line 24 raises
  \<open>ValueError\<close> for a negative count; \<open>self.radius ** 3\<close> at line 33 raises
  \<open>OverflowError\<close> when the cube is out of range; Python's float division at line 35
  raises \<open>ZeroDivisionError\<close> for a zero mass. The code tests none of its arguments
  itself. (The memory that the arrays need is not modelled.)
\<close>

definition init_fields :: "int \<Rightarrow> real \<Rightarrow> real \<Rightarrow> real \<Rightarrow> real \<Rightarrow> py_error + GasSimulation3d" where
  "init_fields particlesCount m effectiveRadius v T =
     (if particlesCount < 0 then Inl ValueError
      else if cube_overflows effectiveRadius then Inl OverflowError
      else if m = 0 then Inl ZeroDivisionError
      else Inr \<lparr>partCount = nat particlesCount,
                mass = m,
                radius = Fin effectiveRadius,
                volume = v,
                temp = T,
                pos = replicate (nat particlesCount) zero3,
                vel = replicate (nat particlesCount) zero3,
                cubicParts1 = cube_root_floor (nat particlesCount),
                cubicParts2 = (cube_root_floor (nat particlesCount))\<^sup>2,
                sideLength = pow_third v,
                velNormalized = pow_half (3 * (1.87 / 10 ^ 23) * T / m),
                partBelonging = None\<rparr>)"

text \<open>
  \<open>np.linspace(start, stop, num)\<close> with its default end point: for \<open>num = 1\<close>
  numpy returns \<open>0 * (stop - start) + start\<close>; for \<open>num \<ge> 2\<close> it returns
  \<open>k * step + start\<close> with \<open>step = (stop - start) / (num - 1)\<close> and overwrites the last
  entry with \<open>stop\<close>. (When the step is zero numpy computes \<open>k / (num - 1) * 0\<close>,
  which is the same value.)
\<close>

definition linspace :: "fl \<Rightarrow> fl \<Rightarrow> nat \<Rightarrow> fl list" where
  "linspace start stop num =
     (if num = 0 then []
      else if num = 1 then [Fin 0 * (stop - start) + start]
      else map (\<lambda>k. Fin (real k) * ((stop - start) / Fin (real (num - 1))) + start)
             [0..<num - 1] @ [stop])"

text \<open>Integer \<open>%\<close> and \<open>//\<close> on non-negative integers, indexing, and item assignment.\<close>

definition py_mod :: "nat \<Rightarrow> nat \<Rightarrow> py_error + nat" where
  "py_mod a b = (if b = 0 then Inl ZeroDivisionError else Inr (a mod b))"

definition py_floordiv :: "nat \<Rightarrow> nat \<Rightarrow> py_error + nat" where
  "py_floordiv a b = (if b = 0 then Inl ZeroDivisionError else Inr (a div b))"

definition getitem :: "'a list \<Rightarrow> nat \<Rightarrow> py_error + 'a" where
  "getitem xs k = (if k < length xs then Inr (xs ! k) else Inl IndexError)"

definition setitem :: "'a list \<Rightarrow> nat \<Rightarrow> 'a \<Rightarrow> py_error + 'a list" where
  "setitem xs k v = (if k < length xs then Inr (xs[k := v]) else Inl IndexError)"

definition table_set :: "fl list list \<Rightarrow> nat \<Rightarrow> nat \<Rightarrow> fl \<Rightarrow> py_error + fl list list" where
  "table_set tbl i k v =
     (if i < length tbl \<and> k < length (tbl ! i) then Inr (tbl[i := (tbl ! i)[k := v]])
      else Inl IndexError)"

text \<open>
  The body of the placement loop of \<open>SetParticles\<close> (lines 79 to 83). \<open>rnd k\<close> is
  the \<open>k\<close>-th number that \<open>SetParticles\<close> draws from numpy's generator, a float in
  \<open>[0, 1)\<close>; particle \<open>i\<close> uses the draws \<open>3 i\<close>, \<open>3 i + 1\<close> and \<open>3 i + 2\<close>. The
  last statement stores into \<open>self.partBelonging\<close>, which raises \<open>AttributeError\<close>
  when the attribute does not exist.
\<close>

definition place :: "(nat \<Rightarrow> real) \<Rightarrow> fl list \<Rightarrow> nat \<Rightarrow> GasSimulation3d \<Rightarrow> py_error + GasSimulation3d" where
  "place rnd dists i s =
     and_then (py_mod i (cubicParts1 s ^ 3)) (\<lambda>temp.
     and_then (py_mod temp (cubicParts1 s)) (\<lambda>kx.
     and_then (getitem dists kx) (\<lambda>dx.
     and_then (py_mod temp (cubicParts2 s)) (\<lambda>ty.
     and_then (py_floordiv ty (cubicParts1 s)) (\<lambda>ky.
     and_then (getitem dists ky) (\<lambda>dy.
     and_then (py_floordiv temp (cubicParts2 s)) (\<lambda>kz.
     and_then (getitem dists kz) (\<lambda>dz.
     and_then (setitem (pos s) i
                 (Vec3 (dx + Fin (rnd (3 * i)) * (radius s * Fin 0.5))
                       (dy + Fin (rnd (3 * i + 1)) * (radius s * Fin 0.5))
                       (dz + Fin (rnd (3 * i + 2)) * (radius s * Fin 0.5)))) (\<lambda>ps.
     case partBelonging s of
       None \<Rightarrow> Inl AttributeError
     | Some tbl \<Rightarrow>
         and_then (table_set tbl temp 6 (Fin (real i))) (\<lambda>tbl.
         Inr (s\<lparr>pos := ps, partBelonging := Some tbl\<rparr>)))))))))))"

text \<open>
  \<open>SetParticles\<close>: the lattice coordinates, the placement loop, and the
  velocities \<open>random.uniform(-1, 1, (partCount, 3)) * self.velNormalized\<close>, which
  take the next \<open>3 * partCount\<close> draws, each mapped to \<open>-1 + 2 u\<close>.
\<close>

definition SetParticles :: "(nat \<Rightarrow> real) \<Rightarrow> GasSimulation3d \<Rightarrow> py_error + GasSimulation3d" where
  "SetParticles rnd s =
     (let dists = linspace (radius s * Fin 5) (sideLength s - radius s * Fin 5)
                    (cube_root_floor (partCount s));
          s = s\<lparr>pos := replicate (partCount s) zero3\<rparr>
      in and_then (for_each (place rnd dists) [0..<partCount s] s) (\<lambda>s.
         Inr (s\<lparr>vel := map (\<lambda>i. Vec3
                   (Fin (- 1 + 2 * rnd (3 * partCount s + 3 * i)) * velNormalized s)
                   (Fin (- 1 + 2 * rnd (3 * partCount s + 3 * i + 1)) * velNormalized s)
                   (Fin (- 1 + 2 * rnd (3 * partCount s + 3 * i + 2)) * velNormalized s))
                 [0..<partCount s]\<rparr>)))"

text \<open>
  \<open>SetGraphs\<close> creates the matplotlib figure and the histogram data. It changes
  none of the attributes above and is taken not to raise.
\<close>

definition SetGraphs :: "GasSimulation3d \<Rightarrow> py_error + GasSimulation3d" where
  "SetGraphs s = Inr s"

text \<open>
  \<open>np.zeros(self.cubicParts1 ** 3, 7)\<close>: the second positional argument of
  \<open>np.zeros\<close> is the element type, and \<open>7\<close> is not one, so the call raises
  \<open>TypeError\<close> whatever the first argument is.
\<close>

definition np_zeros_dtype :: "nat \<Rightarrow> nat \<Rightarrow> py_error + fl list list" where
  "np_zeros_dtype n d = Inl TypeError"

text \<open>
  Lines 41 to 45: the cell length \<open>self.sideLength / self.cubicParts1\<close> (Python's
  division) and the two nested loops that store the borders.
\<close>

definition set_borders :: "fl \<Rightarrow> nat \<Rightarrow> nat \<Rightarrow> fl list list \<Rightarrow> py_error + fl list list" where
  "set_borders cellLength i j tbl =
     and_then (table_set tbl i (2 * j) (cellLength * Fin (real i))) (\<lambda>tbl.
     table_set tbl i (2 * j + 1) (cellLength * Fin (real (i + 1))))"

definition fill_borders :: "GasSimulation3d \<Rightarrow> py_error + GasSimulation3d" where
  "fill_borders s =
     (if cubicParts1 s = 0 then Inl ZeroDivisionError
      else case partBelonging s of
        None \<Rightarrow> Inl AttributeError
      | Some tbl \<Rightarrow>
          and_then
            (for_each (\<lambda>i. for_each (set_borders (sideLength s / Fin (real (cubicParts1 s))) i)
                               [0..<3])
               [0..<cubicParts1 s ^ 3] tbl) (\<lambda>tbl.
          Inr (s\<lparr>partBelonging := Some tbl\<rparr>)))"

text \<open>\<open>__init__\<close>, with the draws of the random generator as a parameter.\<close>

definition init :: "int \<Rightarrow> real \<Rightarrow> real \<Rightarrow> real \<Rightarrow> real \<Rightarrow> (nat \<Rightarrow> real) \<Rightarrow> py_error + GasSimulation3d" where
  "init particlesCount m effectiveRadius v T rnd =
     and_then (init_fields particlesCount m effectiveRadius v T) (\<lambda>s.
     and_then (SetParticles rnd s) (\<lambda>s.
     and_then (SetGraphs s) (\<lambda>s.
     and_then (np_zeros_dtype (cubicParts1 s ^ 3) 7) (\<lambda>tbl.
     fill_borders (s\<lparr>partBelonging := Some tbl\<rparr>)))))"

section \<open>Vocabulary of the properties\<close>

text \<open>A row of finite numbers, and the row numpy prints as \<open>[nan nan nan]\<close>.\<close>

fun finite3 :: "vec3 \<Rightarrow> bool" where
  "finite3 (Vec3 (Fin a) (Fin b) (Fin c)) = True"
| "finite3 _ = False"

definition nan3 :: vec3 where
  "nan3 = Vec3 NaN NaN NaN"



text \<open>
  No wall test of \<open>Step\<close> fires for particle \<open>i\<close> on axis \<open>a\<close>: both comparisons of
  the wall loop are false.
\<close>

definition clear_of_walls :: "GasSimulation3d \<Rightarrow> nat \<Rightarrow> axis \<Rightarrow> bool" where
  "clear_of_walls s i a =
     (\<not> coord (pos s ! i) a - radius s < Fin 0 \<and>
      \<not> sideLength s < coord (pos s ! i) a + radius s)"

text \<open>
  An object with the table \<open>np.zeros((cubicParts1 ** 3, 7))\<close> in place, the shape
  that the layout described in \<open>Step\<close> and the store \<open>self.partBelonging[temp, 6]\<close>
  ask for.
\<close>

definition with_table :: "GasSimulation3d \<Rightarrow> GasSimulation3d" where
  "with_table s =
     s\<lparr>partBelonging := Some (replicate (cubicParts1 s ^ 3) (replicate 7 (Fin 0)))\<rparr>"

section \<open>Example states\<close>

text \<open>A chamber of side 10 holding particles of radius 1 with the given rows.\<close>

definition box :: "vec3 list \<Rightarrow> vec3 list \<Rightarrow> GasSimulation3d" where
  "box ps vs =
     \<lparr>partCount = length ps, mass = 1, radius = Fin 1, volume = 1000, temp = 300,
      pos = ps, vel = vs, cubicParts1 = 1, cubicParts2 = 1, sideLength = Fin 10,
      velNormalized = Fin 1, partBelonging = None\<rparr>"

text \<open>Two particles at rest with the same centre.\<close>

definition coincident :: GasSimulation3d where
  "coincident = box [Vec3 (Fin 5) (Fin 5) (Fin 5), Vec3 (Fin 5) (Fin 5) (Fin 5)]
                    [zero3, zero3]"

text \<open>One particle in the middle of the chamber, moving along the x axis.\<close>

definition lone :: GasSimulation3d where
  "lone = box [Vec3 (Fin 5) (Fin 5) (Fin 5)] [Vec3 (Fin 1) (Fin 0) (Fin 0)]"


text \<open>
  Three particles: the last two are at rest at the same centre, and the first one
  moves towards them and overlaps both.
\<close>

definition trio :: GasSimulation3d where
  "trio = box [Vec3 (Fin 4) (Fin 5) (Fin 5), Vec3 (Fin 5) (Fin 5) (Fin 5),
               Vec3 (Fin 5) (Fin 5) (Fin 5)]
              [Vec3 (Fin 1) (Fin 0) (Fin 0), zero3, zero3]"

text \<open>
  Four particles at rest: the first two overlap, the last two have the same centre,
  far from the first two.
\<close>

definition two_pairs :: GasSimulation3d where
  "two_pairs = box [Vec3 (Fin 2) (Fin 5) (Fin 5), Vec3 (Fin 3) (Fin 5) (Fin 5),
                    Vec3 (Fin 7) (Fin 5) (Fin 5), Vec3 (Fin 7) (Fin 5) (Fin 5)]
                   [zero3, zero3, zero3, zero3]"


text \<open>
  The root-mean-square speed of kinetic theory, \<open>sqrt(3 k\<^sub>B T / m)\<close>, with the
  Boltzmann constant of the SI: the value the comment at line 35 names.
\<close>

definition boltzmann :: real where
  "boltzmann = 1.380649 / 10 ^ 23"

definition rms_speed :: "real \<Rightarrow> real \<Rightarrow> real" where
  "rms_speed m T = sqrt (3 * boltzmann * T / m)"


section \<open>Vocabulary of the placement\<close>






text \<open>
  The objects that lines 19 to 35 build for 8 and for 64 particles of radius 0.25 in
  a chamber of volume 27, whose side is 3, and for 8 particles of radius 0.2 in a
  chamber of volume 8, whose side is 2 and leaves the lattice no room:
  \<open>5 * radius = sideLength - 5 * radius\<close>.
\<close>

definition eight :: GasSimulation3d where
  "eight = projr (init_fields 8 1 (1 / 4) 27 300)"




section \<open>Arithmetic and evaluation lemmas\<close>

lemma Fin_minus [simp]: "Fin a - Fin b = Fin (a - b)"
  by (simp add: minus_fl_def)

lemma finite3E:
  assumes "finite3 v"
  obtains a b c where "v = Vec3 (Fin a) (Fin b) (Fin c)"
  using assms by (cases v rule: finite3.cases) auto

lemma sqrt_less_sq: "0 \<le> x \<Longrightarrow> 0 < y \<Longrightarrow> (sqrt x < y) = (x < y * y)"
proof -
  assume x: "0 \<le> x" and y: "0 < y"
  have "sqrt x < y \<longleftrightarrow> sqrt x < sqrt (y * y)" using y by simp
  also have "\<dots> \<longleftrightarrow> x < y * y" by (rule real_sqrt_less_iff)
  finally show ?thesis .
qed

lemmas eval_pairs =
  collision_pairs_def distances_def box_def zero3_def upt_rec sqrt_less_sq free_flight_def

lemmas eval_walls =
  walls_def wall_particle_def lower_wall_def upper_wall_def upt_rec minus_fl_def

section \<open>Resolution of one pair\<close>

lemma collide_vel1:
  "i1 < length (vel s) \<Longrightarrow> i1 \<noteq> i2 \<Longrightarrow>
   vel (collide dt s (i1, i2)) ! i1 =
     vdiv (vel s ! i1 + vel s ! i2) (Fin 2) -
     vdiv (vdiv (smul (Fin 2 * dot (pos s ! i1 - pos s ! i2) (vel s ! i1 - vel s ! i2))
                   (pos s ! i1 - pos s ! i2))
             (dot (pos s ! i1 - pos s ! i2) (pos s ! i1 - pos s ! i2))
           - (vel s ! i1 - vel s ! i2)) (Fin 2)"
  by (simp add: collide_def Let_def)

lemma collide_vel2:
  "i2 < length (vel s) \<Longrightarrow>
   vel (collide dt s (i1, i2)) ! i2 =
     vdiv (vel s ! i1 + vel s ! i2) (Fin 2) +
     vdiv (vdiv (smul (Fin 2 * dot (pos s ! i1 - pos s ! i2) (vel s ! i1 - vel s ! i2))
                   (pos s ! i1 - pos s ! i2))
             (dot (pos s ! i1 - pos s ! i2) (pos s ! i1 - pos s ! i2))
           - (vel s ! i1 - vel s ! i2)) (Fin 2)"
  by (simp add: collide_def Let_def)

lemma collide_pos1:
  "i1 < length (pos s) \<Longrightarrow> i1 \<noteq> i2 \<Longrightarrow>
   pos (collide dt s (i1, i2)) ! i1 = pos s ! i1 + vmul (vel (collide dt s (i1, i2)) ! i1) dt"
  by (simp add: collide_def Let_def)

lemma collide_pos2:
  "i2 < length (pos s) \<Longrightarrow> i1 \<noteq> i2 \<Longrightarrow>
   pos (collide dt s (i1, i2)) ! i2 = pos s ! i2 + vmul (vel (collide dt s (i1, i2)) ! i2) dt"
  by (simp add: collide_def Let_def)

lemma pairs_coincident:
  "collision_pairs (pos (free_flight coincident (Fin 1))) (radius coincident) = [(0, 1)]"
  by (simp add: coincident_def eval_pairs)


section \<open>The wall loop\<close>

lemma coord_set_coord [simp]: "coord (set_coord v a c) b = (if a = b then c else coord v b)"
  by (cases v; cases a; cases b) simp_all

lemma lower_wall_frame [simp]:
  "radius (lower_wall i a s) = radius s"
  "sideLength (lower_wall i a s) = sideLength s"
  "partCount (lower_wall i a s) = partCount s"
  "length (pos (lower_wall i a s)) = length (pos s)"
  "length (vel (lower_wall i a s)) = length (vel s)"
  by (simp_all add: lower_wall_def Let_def)

lemma upper_wall_frame [simp]:
  "radius (upper_wall i a s) = radius s"
  "sideLength (upper_wall i a s) = sideLength s"
  "partCount (upper_wall i a s) = partCount s"
  "length (pos (upper_wall i a s)) = length (pos s)"
  "length (vel (upper_wall i a s)) = length (vel s)"
  by (simp_all add: upper_wall_def Let_def)

lemma lower_wall_other [simp]: "j \<noteq> i \<Longrightarrow> pos (lower_wall i a s) ! j = pos s ! j"
  by (simp add: lower_wall_def Let_def)

lemma upper_wall_other [simp]: "j \<noteq> i \<Longrightarrow> pos (upper_wall i a s) ! j = pos s ! j"
  by (simp add: upper_wall_def Let_def)







lemma wall_particle_frame [simp]:
  "radius (wall_particle i s) = radius s"
  "sideLength (wall_particle i s) = sideLength s"
  "partCount (wall_particle i s) = partCount s"
  "length (pos (wall_particle i s)) = length (pos s)"
  "length (vel (wall_particle i s)) = length (vel s)"
  by (simp_all add: wall_particle_def)



lemma fold_wall_frame [simp]:
  "radius (fold wall_particle ks s) = radius s"
  "sideLength (fold wall_particle ks s) = sideLength s"
  "partCount (fold wall_particle ks s) = partCount s"
  "length (pos (fold wall_particle ks s)) = length (pos s)"
  "length (vel (fold wall_particle ks s)) = length (vel s)"
  by (induction ks arbitrary: s) simp_all



section \<open>What Step keeps\<close>

lemma collide_frame [simp]:
  "radius (collide dt s p) = radius s"
  "sideLength (collide dt s p) = sideLength s"
  "partCount (collide dt s p) = partCount s"
  "length (pos (collide dt s p)) = length (pos s)"
  "length (vel (collide dt s p)) = length (vel s)"
  by (simp_all add: collide_def Let_def)

lemma foldl_collide_frame [simp]:
  "radius (foldl (collide dt) s ps) = radius s"
  "sideLength (foldl (collide dt) s ps) = sideLength s"
  "partCount (foldl (collide dt) s ps) = partCount s"
  "length (pos (foldl (collide dt) s ps)) = length (pos s)"
  "length (vel (foldl (collide dt) s ps)) = length (vel s)"
  by (induction ps arbitrary: s) simp_all

lemma free_flight_frame [simp]:
  "radius (free_flight s dt) = radius s"
  "sideLength (free_flight s dt) = sideLength s"
  "partCount (free_flight s dt) = partCount s"
  "length (pos (free_flight s dt)) = min (length (pos s)) (length (vel s))"
  "vel (free_flight s dt) = vel s"
  by (simp_all add: free_flight_def)

lemma walls_frame [simp]:
  "radius (walls s) = radius s"
  "sideLength (walls s) = sideLength s"
  "partCount (walls s) = partCount s"
  "length (pos (walls s)) = length (pos s)"
  "length (vel (walls s)) = length (vel s)"
  by (simp_all add: walls_def)

lemma Step_coincident:
  "Step coincident (Fin 1) = coincident\<lparr>pos := [nan3, nan3], vel := [nan3, nan3]\<rparr>"
  by (simp add: Step_def Let_def pairs_coincident)
     (simp add: coincident_def box_def free_flight_def collide_def Let_def zero3_def nan3_def
        eval_walls)



lemma pairs_lone: "collision_pairs (pos (free_flight lone dt)) (radius lone) = []"
  by (simp add: lone_def collision_pairs_def distances_def box_def free_flight_def upt_rec)




section \<open>A pair with coincident centres\<close>

text \<open>A product with a zero factor is zero or NaN; divided by zero it is NaN.\<close>

lemma zero_times: "Fin 0 * x = Fin 0 \<or> Fin 0 * x = NaN"
  by (cases x) simp_all

lemma zn_add:
  "a = Fin 0 \<or> a = NaN \<Longrightarrow> b = Fin 0 \<or> b = NaN \<Longrightarrow> a + b = Fin 0 \<or> a + b = NaN"
  by auto

lemma zn_times_zero: "k = Fin 0 \<or> k = NaN \<Longrightarrow> k * Fin 0 = Fin 0 \<or> k * Fin 0 = NaN"
  by auto

lemma zn_two: "k = Fin 0 \<or> k = NaN \<Longrightarrow> Fin 2 * k = Fin 0 \<or> Fin 2 * k = NaN"
  by auto

lemma zn_div_zero: "k = Fin 0 \<or> k = NaN \<Longrightarrow> k / Fin 0 = NaN"
  by auto

lemma nan_minus [simp]: "NaN - x = NaN" "x - NaN = NaN"
  by (cases x; simp add: minus_fl_def)+

lemma plus_nan [simp]: "x + NaN = NaN"
  by (cases x) simp_all

lemma times_nan [simp]: "x * NaN = NaN"
  by (cases x) simp_all

lemma nan3_ops [simp]:
  "nan3 - v = nan3" "v - nan3 = nan3" "v + nan3 = nan3" "nan3 + v = nan3"
  "vdiv nan3 k = nan3" "vmul nan3 k = nan3"
  by (cases v; simp add: nan3_def)+

lemma quotient_nan:
  assumes "n = zero3"
  shows "vdiv (smul (Fin 2 * dot n w) n) (dot n n) = nan3"
proof -
  obtain a b c where w: "w = Vec3 a b c" by (cases w)
  have d: "dot n w = Fin 0 \<or> dot n w = NaN"
    using zero_times [of a] zero_times [of b] zero_times [of c]
    unfolding assms w zero3_def dot.simps by (intro zn_add)
  have k: "Fin 2 * dot n w = Fin 0 \<or> Fin 2 * dot n w = NaN"
    using d by (rule zn_two)
  have q: "(Fin 2 * dot n w) * Fin 0 / Fin 0 = NaN"
    using k by (intro zn_div_zero zn_times_zero)
  show ?thesis
    using q by (simp add: assms zero3_def nan3_def)
qed

lemma collide_coincident:
  assumes "i1 < length (vel s)" "i2 < length (vel s)" "i1 < length (pos s)" "i2 < length (pos s)"
    and "i1 \<noteq> i2"
    and "finite3 (pos s ! i1)" "pos s ! i2 = pos s ! i1"
  shows "vel (collide dt s (i1, i2)) ! i1 = nan3 \<and> vel (collide dt s (i1, i2)) ! i2 = nan3
       \<and> pos (collide dt s (i1, i2)) ! i1 = nan3 \<and> pos (collide dt s (i1, i2)) ! i2 = nan3"
proof -
  obtain px py pz where p1: "pos s ! i1 = Vec3 (Fin px) (Fin py) (Fin pz)"
    using assms(6) by (rule finite3E)
  have n: "pos s ! i1 - pos s ! i2 = zero3"
    by (simp add: assms(7) p1 zero3_def)
  have q: "vdiv (smul (Fin 2 * dot (pos s ! i1 - pos s ! i2) (vel s ! i1 - vel s ! i2))
                   (pos s ! i1 - pos s ! i2))
             (dot (pos s ! i1 - pos s ! i2) (pos s ! i1 - pos s ! i2)) = nan3"
    using n by (rule quotient_nan)
  have v1: "vel (collide dt s (i1, i2)) ! i1 = nan3"
    using assms(1,5) by (simp add: collide_vel1 q)
  have v2: "vel (collide dt s (i1, i2)) ! i2 = nan3"
    using assms(2) by (simp add: collide_vel2 q)
  have "pos (collide dt s (i1, i2)) ! i1 = nan3"
    using assms(3,5) by (simp add: collide_pos1 v1)
  moreover have "pos (collide dt s (i1, i2)) ! i2 = nan3"
    using assms(4,5) by (simp add: collide_pos2 v2)
  ultimately show ?thesis using v1 v2 by simp
qed

text \<open>A resolution touches the rows of its two particles only.\<close>

lemma collide_other:
  assumes "k \<noteq> fst p" "k \<noteq> snd p"
  shows "pos (collide dt s p) ! k = pos s ! k" "vel (collide dt s p) ! k = vel s ! k"
  using assms by (simp_all add: collide_def Let_def)

lemma foldl_collide_other:
  "(\<forall>p\<in>set ps. k \<noteq> fst p \<and> k \<noteq> snd p) \<Longrightarrow>
   pos (foldl (collide dt) s ps) ! k = pos s ! k \<and> vel (foldl (collide dt) s ps) ! k = vel s ! k"
  by (induction ps arbitrary: s) (simp_all add: collide_other)

text \<open>Rows that are NaN stay NaN in every later resolution and in the wall loop.\<close>

lemma collide_keeps_nan:
  assumes "pos s ! k = nan3" "vel s ! k = nan3" "fst p \<noteq> snd p"
    and "k < length (pos s)" "k < length (vel s)"
  shows "pos (collide dt s p) ! k = nan3 \<and> vel (collide dt s p) ! k = nan3"
proof -
  obtain j1 j2 where p: "p = (j1, j2)" by (cases p)
  have d: "j1 \<noteq> j2" using assms(3) p by simp
  consider "k = j1" | "k = j2" | "k \<noteq> j1" "k \<noteq> j2" by blast
  then show ?thesis
  proof cases
    case 1
    have v: "vel (collide dt s (j1, j2)) ! j1 = nan3"
      using assms(2,5) d 1 by (simp add: collide_vel1)
    have "pos (collide dt s (j1, j2)) ! j1 = nan3"
      using assms(1,4) d 1 by (simp add: collide_pos1 v)
    then show ?thesis using v 1 p by simp
  next
    case 2
    have v: "vel (collide dt s (j1, j2)) ! j2 = nan3"
      using assms(2,5) 2 by (simp add: collide_vel2)
    have "pos (collide dt s (j1, j2)) ! j2 = nan3"
      using assms(1,4) d 2 by (simp add: collide_pos2 v)
    then show ?thesis using v 2 p by simp
  next
    case 3
    then show ?thesis using assms(1,2) p by (simp add: collide_other)
  qed
qed

lemma foldl_collide_keeps_nan:
  "pos s ! k = nan3 \<Longrightarrow> vel s ! k = nan3 \<Longrightarrow> (\<forall>p\<in>set ps. fst p \<noteq> snd p) \<Longrightarrow>
   k < length (pos s) \<Longrightarrow> k < length (vel s) \<Longrightarrow>
   pos (foldl (collide dt) s ps) ! k = nan3 \<and> vel (foldl (collide dt) s ps) ! k = nan3"
proof (induction ps arbitrary: s)
  case Nil
  then show ?case by simp
next
  case (Cons p ps)
  have "pos (collide dt s p) ! k = nan3 \<and> vel (collide dt s p) ! k = nan3"
    using Cons.prems by (intro collide_keeps_nan) simp_all
  then show ?case using Cons.prems by (simp add: Cons.IH)
qed

lemma less_nan [simp]: "\<not> x < NaN"
  by (cases x) simp_all

lemma coord_nan3 [simp]: "coord nan3 a = NaN"
  by (cases a) (simp_all add: nan3_def)

lemma lower_wall_keeps_nan:
  assumes "pos s ! k = nan3 \<and> vel s ! k = nan3"
  shows "pos (lower_wall i a s) ! k = nan3 \<and> vel (lower_wall i a s) ! k = nan3"
proof (cases "i = k")
  case True
  then show ?thesis using assms by (simp add: lower_wall_def)
next
  case False
  then show ?thesis using assms by (simp add: lower_wall_def Let_def)
qed

lemma upper_wall_keeps_nan:
  assumes "pos s ! k = nan3 \<and> vel s ! k = nan3"
  shows "pos (upper_wall i a s) ! k = nan3 \<and> vel (upper_wall i a s) ! k = nan3"
proof (cases "i = k")
  case True
  then show ?thesis using assms by (simp add: upper_wall_def)
next
  case False
  then show ?thesis using assms by (simp add: upper_wall_def Let_def)
qed

lemma wall_particle_keeps_nan:
  assumes "pos s ! k = nan3 \<and> vel s ! k = nan3"
  shows "pos (wall_particle i s) ! k = nan3 \<and> vel (wall_particle i s) ! k = nan3"
  unfolding wall_particle_def
  by (intro upper_wall_keeps_nan lower_wall_keeps_nan) (rule assms)

lemma walls_keep_nan:
  assumes "pos s ! k = nan3 \<and> vel s ! k = nan3"
  shows "pos (walls s) ! k = nan3 \<and> vel (walls s) ! k = nan3"
proof -
  have "pos (fold wall_particle js s) ! k = nan3 \<and> vel (fold wall_particle js s) ! k = nan3"
    for js
    using assms by (induction js arbitrary: s) (simp_all add: wall_particle_keeps_nan)
  then show ?thesis by (simp add: walls_def)
qed

lemma collision_pairs_bound:
  assumes "p \<in> set (collision_pairs ps r)"
  shows "fst p < snd p" "snd p < length ps"
  using assms by (auto simp add: collision_pairs_def)

lemma pairs_two_pairs:
  "collision_pairs (pos (free_flight two_pairs (Fin 1))) (radius two_pairs) = [(0, 1), (2, 3)]"
  by (simp add: two_pairs_def eval_pairs)

text \<open>
  A selected pair need not be coincident any more when its turn comes: in \<open>trio\<close>
  the pair \<open>(1, 2)\<close> is selected with equal centres, but \<open>(0, 1)\<close> is resolved first
  and moves particle 1, and \<open>Step\<close> ends with finite rows.
\<close>

lemma pairs_trio:
  "collision_pairs (pos (free_flight trio (Fin 0.5))) (radius trio) = [(0, 1), (0, 2), (1, 2)]"
  by (simp add: trio_def eval_pairs)

lemma trio_resolved:
  "foldl (collide (Fin 0.5)) (free_flight trio (Fin 0.5)) [(0, 1), (0, 2), (1, 2)] =
     trio\<lparr>pos := [Vec3 (Fin 4.5) (Fin 5) (Fin 5), Vec3 (Fin 5.5) (Fin 5) (Fin 5),
                   Vec3 (Fin 5.5) (Fin 5) (Fin 5)],
            vel := [Vec3 (Fin 0) (Fin 0) (Fin 0), Vec3 (Fin 0) (Fin 0) (Fin 0),
                    Vec3 (Fin 1) (Fin 0) (Fin 0)]\<rparr>"
  by (simp add: trio_def box_def free_flight_def zero3_def collide_def Let_def)

lemma Step_trio:
  "Step trio (Fin 0.5) =
     trio\<lparr>pos := [Vec3 (Fin 4.5) (Fin 5) (Fin 5), Vec3 (Fin 5.5) (Fin 5) (Fin 5),
                   Vec3 (Fin 5.5) (Fin 5) (Fin 5)],
            vel := [Vec3 (Fin 0) (Fin 0) (Fin 0), Vec3 (Fin 0) (Fin 0) (Fin 0),
                    Vec3 (Fin 1) (Fin 0) (Fin 0)]\<rparr>"
  apply (simp only: Step_def Let_def pairs_trio free_flight_frame trio_resolved)
  apply (simp add: trio_def box_def eval_walls)
  done

lemma trio_coincident_after_flight:
  "pos (free_flight trio (Fin 0.5)) ! 1 = pos (free_flight trio (Fin 0.5)) ! 2"
  by (simp add: trio_def box_def free_flight_def zero3_def)

text \<open>
  C4, as stated, fails: \<open>Step\<close> selects the pair of \<open>coincident\<close>, whose centres
  are equal, and neither skips it nor gives it another normal: it divides by
  \<open>dot(vec_normal, vec_normal) = 0\<close>, and the rows of both particles end as NaN
  (a skipped pair would keep its velocities \<open>zero3\<close>).
\<close>

theorem Step_divides_by_zero_normal:
  "collision_pairs (pos (free_flight coincident (Fin 1))) (radius coincident) = [(0, 1)]
   \<and> pos coincident ! 0 = pos coincident ! 1
   \<and> vel (Step coincident (Fin 1)) = [nan3, nan3]
   \<and> pos (Step coincident (Fin 1)) = [nan3, nan3]
   \<and> vel coincident = [zero3, zero3]"
  by (simp add: pairs_coincident Step_coincident) (simp add: coincident_def box_def)

text \<open>
  C4, amended: \<open>Step\<close> has no guard for a zero normal vector. For every state in
  which a selected pair has exactly coincident finite centres after the free flight,
  and no pair resolved before it involves one of its two particles, \<open>Step\<close> divides
  by \<open>dot(vec_normal, vec_normal) = 0\<close>; numpy yields NaN for \<open>0 / 0\<close> and raises
  nothing, and when \<open>Step\<close> returns the position row and the velocity row of both
  particles are NaN in every component, whatever the velocities and \<open>dt\<close> are. The
  pair is neither skipped nor given another normal.
\<close>

theorem Step_coincident_pair_gives_nan:
  assumes "length (vel s) = length (pos s)"
    and "collision_pairs (pos (free_flight s dt)) (radius s) = before @ (i1, i2) # after"
    and "\<forall>p\<in>set before. fst p \<noteq> i1 \<and> fst p \<noteq> i2 \<and> snd p \<noteq> i1 \<and> snd p \<noteq> i2"
    and "finite3 (pos (free_flight s dt) ! i1)"
    and "pos (free_flight s dt) ! i2 = pos (free_flight s dt) ! i1"
  shows "pos (Step s dt) ! i1 = nan3 \<and> vel (Step s dt) ! i1 = nan3
       \<and> pos (Step s dt) ! i2 = nan3 \<and> vel (Step s dt) ! i2 = nan3"
proof -
  let ?f = "free_flight s dt"
  let ?ps = "collision_pairs (pos ?f) (radius s)"
  let ?b = "foldl (collide dt) ?f before"
  let ?c = "collide dt ?b (i1, i2)"
  let ?e = "foldl (collide dt) ?c after"
  have lf: "length (pos ?f) = length (pos s)" "length (vel ?f) = length (pos s)"
    using assms(1) by simp_all
  have mem: "(i1, i2) \<in> set ?ps" using assms(2) by simp
  have i: "i1 < i2" "i2 < length (pos s)"
    using collision_pairs_bound [OF mem] lf by simp_all
  have ord: "\<forall>p\<in>set after. fst p \<noteq> snd p"
  proof
    fix p assume "p \<in> set after"
    then have "p \<in> set ?ps" using assms(2) by simp
    then have "fst p < snd p" by (rule collision_pairs_bound)
    then show "fst p \<noteq> snd p" by simp
  qed
  have "\<forall>p\<in>set before. i1 \<noteq> fst p \<and> i1 \<noteq> snd p" using assms(3) by auto
  then have b1: "pos ?b ! i1 = pos ?f ! i1"
    using foldl_collide_other [of before i1 dt ?f] by simp
  have "\<forall>p\<in>set before. i2 \<noteq> fst p \<and> i2 \<noteq> snd p" using assms(3) by auto
  then have b2: "pos ?b ! i2 = pos ?f ! i2"
    using foldl_collide_other [of before i2 dt ?f] by simp
  have lb: "length (pos ?b) = length (pos s)" "length (vel ?b) = length (pos s)"
    using lf by simp_all
  have c: "vel ?c ! i1 = nan3 \<and> vel ?c ! i2 = nan3 \<and> pos ?c ! i1 = nan3 \<and> pos ?c ! i2 = nan3"
    using i lb assms(4,5) b1 b2 by (intro collide_coincident) simp_all
  have lc: "length (pos ?c) = length (pos s)" "length (vel ?c) = length (pos s)"
    using lb by simp_all
  have e1: "pos ?e ! i1 = nan3 \<and> vel ?e ! i1 = nan3"
    using c ord i lc by (intro foldl_collide_keeps_nan) simp_all
  have e2: "pos ?e ! i2 = nan3 \<and> vel ?e ! i2 = nan3"
    using c ord i lc by (intro foldl_collide_keeps_nan) simp_all
  have st: "Step s dt = walls ?e"
    by (simp add: Step_def Let_def assms(2))
  show ?thesis
    unfolding st using walls_keep_nan [OF e1] walls_keep_nan [OF e2] by simp
qed

theorem Step_coincident_pair_gives_nan_example:
  "collision_pairs (pos (free_flight two_pairs (Fin 1))) (radius two_pairs) = [(0, 1)] @ (2, 3) # []
   \<and> finite3 (pos (free_flight two_pairs (Fin 1)) ! 2)
   \<and> pos (free_flight two_pairs (Fin 1)) ! 3 = pos (free_flight two_pairs (Fin 1)) ! 2
   \<and> pos (Step two_pairs (Fin 1)) ! 2 = nan3 \<and> vel (Step two_pairs (Fin 1)) ! 2 = nan3
   \<and> pos (Step two_pairs (Fin 1)) ! 3 = nan3 \<and> vel (Step two_pairs (Fin 1)) ! 3 = nan3"
proof -
  have l: "length (vel two_pairs) = length (pos two_pairs)"
    by (simp add: two_pairs_def box_def)
  have p: "collision_pairs (pos (free_flight two_pairs (Fin 1))) (radius two_pairs)
           = [(0, 1)] @ (2, 3) # []"
    by (simp add: pairs_two_pairs)
  have b: "\<forall>p\<in>set [(0::nat, 1::nat)]. fst p \<noteq> 2 \<and> fst p \<noteq> 3 \<and> snd p \<noteq> 2 \<and> snd p \<noteq> 3"
    by simp
  have f: "finite3 (pos (free_flight two_pairs (Fin 1)) ! 2)"
    by (simp add: two_pairs_def box_def free_flight_def zero3_def)
  have c: "pos (free_flight two_pairs (Fin 1)) ! 3 = pos (free_flight two_pairs (Fin 1)) ! 2"
    by (simp add: two_pairs_def box_def free_flight_def zero3_def)
  show ?thesis
    using Step_coincident_pair_gives_nan [OF l p b f c] p f c by simp
qed

section \<open>The timestep\<close>

lemma wall_particle_clear:
  assumes "\<forall>a. clear_of_walls s i a"
  shows "wall_particle i s = s"
proof -
  have l: "lower_wall i a s = s" for a
    using assms by (simp add: lower_wall_def clear_of_walls_def)
  have u: "upper_wall i a s = s" for a
    using assms by (simp add: upper_wall_def clear_of_walls_def)
  show ?thesis by (simp add: wall_particle_def l u)
qed

lemma fold_wall_clear:
  "(\<forall>i\<in>set ks. \<forall>a. clear_of_walls s i a) \<Longrightarrow> fold wall_particle ks s = s"
  by (induction ks) (auto simp add: wall_particle_clear)

text \<open>
  C5, as stated, fails: \<open>Step\<close> does not test \<open>dt\<close>. With \<open>dt = -1\<close> it returns
  and has moved the particle of \<open>lone\<close> backwards.
\<close>

theorem Step_negative_dt_moves_lone:
  "Step lone (Fin (- 1)) = lone\<lparr>pos := [Vec3 (Fin 4) (Fin 5) (Fin 5)]\<rparr>
   \<and> pos (Step lone (Fin (- 1))) \<noteq> pos lone"
  apply (simp add: Step_def Let_def pairs_lone)
  apply (simp add: lone_def box_def free_flight_def eval_walls)
  done

text \<open>
  C5, amended: \<open>Step\<close> accepts every \<open>dt\<close>, non-positive ones included, and applies
  the same update: when no pair is selected after the free flight and no wall test
  fires, the result is the state with \<open>pos + vel * dt\<close> and the velocities unchanged.
\<close>

theorem Step_accepts_any_dt:
  assumes "collision_pairs (pos (free_flight s dt)) (radius s) = []"
    and "\<forall>i<partCount s. \<forall>a. clear_of_walls (free_flight s dt) i a"
  shows "Step s dt = free_flight s dt"
proof -
  have "walls (free_flight s dt) = free_flight s dt"
    unfolding walls_def using assms(2) by (intro fold_wall_clear) simp
  then show ?thesis
    using assms(1) by (simp add: Step_def Let_def)
qed

theorem Step_accepts_any_dt_lone:
  "collision_pairs (pos (free_flight lone (Fin (- 1)))) (radius lone) = []
   \<and> clear_of_walls (free_flight lone (Fin (- 1))) 0 X
   \<and> Step lone (Fin (- 1)) = free_flight lone (Fin (- 1))
   \<and> pos (free_flight lone (Fin (- 1))) = [Vec3 (Fin 4) (Fin 5) (Fin 5)]"
proof -
  have c: "\<forall>i<partCount lone. \<forall>a. clear_of_walls (free_flight lone (Fin (- 1))) i a"
  proof (intro allI impI)
    fix i a assume "i < partCount lone"
    then have "i = 0" by (simp add: lone_def box_def)
    then show "clear_of_walls (free_flight lone (Fin (- 1))) i a"
      by (cases a) (simp_all add: clear_of_walls_def lone_def box_def free_flight_def)
  qed
  have "Step lone (Fin (- 1)) = free_flight lone (Fin (- 1))"
    using pairs_lone c by (rule Step_accepts_any_dt)
  moreover have "clear_of_walls (free_flight lone (Fin (- 1))) 0 X"
    using c by (simp add: lone_def box_def)
  ultimately show ?thesis
    by (simp add: pairs_lone) (simp add: lone_def box_def free_flight_def)
qed


section \<open>The order of the resolutions\<close>








section \<open>The constructor\<close>

lemma floor_root3_between:
  assumes "m ^ 3 \<le> n" "n < (m + 1) ^ 3"
  shows "nat \<lfloor>root 3 (real n)\<rfloor> = m"
proof -
  have lo: "real m \<le> root 3 (real n)"
  proof -
    have "root 3 (real m ^ 3) \<le> root 3 (real n)"
      using assms(1) by (simp add: real_root_le_iff flip: of_nat_power)
    then show ?thesis by (simp add: real_root_power_cancel)
  qed
  have hi: "root 3 (real n) < real m + 1"
  proof -
    have "root 3 (real n) < root 3 ((real m + 1) ^ 3)"
    proof -
      have "real n < real ((m + 1) ^ 3)" using assms(2) by (simp only: of_nat_less_iff)
      then have "real n < (real m + 1) ^ 3" by (simp add: add.commute)
      then show ?thesis by (simp add: real_root_less_iff)
    qed
    then show ?thesis by (simp add: real_root_power_cancel)
  qed
  have "\<lfloor>root 3 (real n)\<rfloor> = int m"
    using lo hi by (simp add: floor_eq_iff)
  then show ?thesis by simp
qed

lemma floor_root3_cube: "nat \<lfloor>root 3 (real (m ^ 3))\<rfloor> = m"
  by (simp add: real_root_power_cancel)

lemma cube_root_floor_small:
  assumes "k \<le> 3"
  shows "cube_root_floor (k ^ 3) = k"
  unfolding cube_root_floor_def floor_root3_cube Let_def using assms by simp

lemma cube_root_floor_large:
  assumes "4 \<le> k"
  shows "cube_root_floor (k ^ 3) = k - 1"
  unfolding cube_root_floor_def floor_root3_cube Let_def using assms by simp

lemma cube_root_floor_8 [simp]: "cube_root_floor 8 = 2"
  using cube_root_floor_small [of 2] by simp

lemma cube_root_floor_64 [simp]: "cube_root_floor 64 = 3"
  using cube_root_floor_large [of 4] by simp

lemma cube_root_floor_pos: "1 \<le> n \<Longrightarrow> 1 \<le> cube_root_floor n"
proof -
  assume "1 \<le> n"
  then have "1 \<le> root 3 (real n)" by simp
  then have "1 \<le> \<lfloor>root 3 (real n)\<rfloor>" by simp
  then have "1 \<le> nat \<lfloor>root 3 (real n)\<rfloor>" by linarith
  then show ?thesis by (auto simp add: cube_root_floor_def Let_def)
qed

lemma no_overflow: "\<bar>x\<bar> \<le> 10 ^ 100 \<Longrightarrow> \<not> cube_overflows x"
proof -
  assume "\<bar>x\<bar> \<le> 10 ^ 100"
  then have "\<bar>x\<bar> ^ 3 \<le> (10 ^ 100) ^ 3" by (intro power_mono) simp_all
  moreover have "((10::real) ^ 100) ^ 3 < 2 ^ 1024 - 2 ^ 970" by simp
  ultimately show ?thesis by (simp add: cube_overflows_def)
qed

lemma length_linspace [simp]: "length (linspace a b n) = n"
  by (simp add: linspace_def)

lemma linspace_Nil [simp]: "linspace a b n = [] \<longleftrightarrow> n = 0"
  using length_linspace [of a b n] by (simp only: length_0_conv [symmetric])

lemma and_then_Inl [simp]: "and_then (Inl e) f = Inl e"
  by (simp add: and_then_def)

lemma and_then_Inr [simp]: "and_then (Inr x) f = f x"
  by (simp add: and_then_def)

lemma place_without_table:
  assumes "partBelonging s = None" "cubicParts1 s \<noteq> 0" "cubicParts2 s \<noteq> 0"
    and "dists \<noteq> []" "pos s \<noteq> []"
  shows "place rnd dists 0 s = Inl AttributeError"
  using assms by (simp add: place_def py_mod_def py_floordiv_def getitem_def setitem_def)

lemma init_outcome:
  "init particlesCount m effectiveRadius v T rnd =
     Inl (if particlesCount < 0 then ValueError
          else if cube_overflows effectiveRadius then OverflowError
          else if m = 0 then ZeroDivisionError
          else if particlesCount = 0 then TypeError
          else AttributeError)"
proof -
  consider "particlesCount < 0 \<or> cube_overflows effectiveRadius \<or> m = 0"
    | "particlesCount = 0" "\<not> cube_overflows effectiveRadius" "m \<noteq> 0"
    | "0 < particlesCount" "\<not> cube_overflows effectiveRadius" "m \<noteq> 0"
    by linarith
  then show ?thesis
  proof cases
    case 1
    then show ?thesis by (auto simp add: init_def init_fields_def)
  next
    case 2
    then show ?thesis
      by (simp add: init_def init_fields_def SetParticles_def Let_def SetGraphs_def
          np_zeros_dtype_def)
  next
    case 3
    note 4 = 3
    define n where "n = nat particlesCount"
    have n: "1 \<le> n" using 4 by (simp add: n_def)
    have c: "1 \<le> cube_root_floor n" using n by (rule cube_root_floor_pos)
    then have c2: "1 \<le> (cube_root_floor n)\<^sup>2"
      by (simp add: Suc_le_eq)
    have u: "[0..<n] = 0 # [1..<n]" using n by (simp add: upt_conv_Cons)
    obtain s where f: "init_fields particlesCount m effectiveRadius v T = Inr s"
      and s: "partCount s = n" "partBelonging s = None" "cubicParts1 s = cube_root_floor n"
        "cubicParts2 s = (cube_root_floor n)\<^sup>2"
      using 4 by (simp add: init_fields_def n_def)
    let ?d = "linspace (radius s * Fin 5) (sideLength s - radius s * Fin 5) (cube_root_floor n)"
    let ?s = "s\<lparr>pos := replicate n zero3\<rparr>"
    have "place rnd ?d 0 ?s = Inl AttributeError"
      using s c c2 n by (intro place_without_table) auto
    then have "SetParticles rnd s = Inl AttributeError"
      by (simp add: SetParticles_def Let_def s u)
    then show ?thesis using 4 f by (simp add: init_def)
  qed
qed

text \<open>
  C9: with the default arguments the constructor does not populate the table: it
  raises \<open>AttributeError\<close> at the first store into \<open>self.partBelonging\<close> in
  \<open>SetParticles\<close>, because \<open>__init__\<close> assigns that attribute only after the call.
\<close>

theorem init_default_raises:
  "init 45 (5 / 10 ^ 20) (2 / 10 ^ 10) (1 / 10 ^ 23) 300 rnd = Inl AttributeError"
  by (simp add: init_outcome no_overflow)

text \<open>
  C6, as stated, fails: with a temperature of zero and the other arguments at their
  defaults, lines 19 to 35 raise nothing; the position and velocity arrays are built
  and the thermal speed is \<open>0\<close>.
\<close>

theorem zero_temperature_is_accepted:
  "\<not> isl (init_fields 45 (5 / 10 ^ 20) (2 / 10 ^ 10) (1 / 10 ^ 23) 0)
   \<and> length (pos (projr (init_fields 45 (5 / 10 ^ 20) (2 / 10 ^ 10) (1 / 10 ^ 23) 0))) = 45
   \<and> length (vel (projr (init_fields 45 (5 / 10 ^ 20) (2 / 10 ^ 10) (1 / 10 ^ 23) 0))) = 45
   \<and> velNormalized (projr (init_fields 45 (5 / 10 ^ 20) (2 / 10 ^ 10) (1 / 10 ^ 23) 0)) = Fin 0"
  by (simp add: init_fields_def pow_half_def no_overflow)

text \<open>
  C6, amended: the constructor validates none of its arguments. A negative particle
  count fails before any array exists, with the \<open>ValueError\<close> of \<open>np.zeros\<close>. For a
  count from 0 to a million and a radius of magnitude up to \<open>1e100\<close>, a zero mass
  fails with the \<open>ZeroDivisionError\<close> of the thermal speed, after the arrays have
  been built, and with any other mass lines 19 to 35 raise nothing, whatever the
  signs of the mass, the radius, the volume and the temperature are: both arrays
  are built with one row per particle.
\<close>

theorem constructor_does_not_validate:
  "(particlesCount < 0 \<longrightarrow>
      init_fields particlesCount m effectiveRadius v T = Inl ValueError)
   \<and> (0 \<le> particlesCount \<and> particlesCount \<le> 10 ^ 6 \<and> \<bar>effectiveRadius\<bar> \<le> 10 ^ 100 \<and> m = 0 \<longrightarrow>
      init_fields particlesCount m effectiveRadius v T = Inl ZeroDivisionError)
   \<and> (0 \<le> particlesCount \<and> particlesCount \<le> 10 ^ 6 \<and> \<bar>effectiveRadius\<bar> \<le> 10 ^ 100 \<and> m \<noteq> 0 \<longrightarrow>
      (\<exists>s. init_fields particlesCount m effectiveRadius v T = Inr s
         \<and> length (pos s) = nat particlesCount \<and> length (vel s) = nat particlesCount
         \<and> mass s = m \<and> radius s = Fin effectiveRadius \<and> volume s = v \<and> temp s = T))"
proof (intro conjI impI)
  assume "particlesCount < 0"
  then show "init_fields particlesCount m effectiveRadius v T = Inl ValueError"
    by (simp add: init_fields_def)
next
  assume h: "0 \<le> particlesCount \<and> particlesCount \<le> 10 ^ 6 \<and> \<bar>effectiveRadius\<bar> \<le> 10 ^ 100 \<and> m = 0"
  then have "\<not> cube_overflows effectiveRadius" by (intro no_overflow) simp
  then show "init_fields particlesCount m effectiveRadius v T = Inl ZeroDivisionError"
    using h by (simp add: init_fields_def)
next
  assume h: "0 \<le> particlesCount \<and> particlesCount \<le> 10 ^ 6 \<and> \<bar>effectiveRadius\<bar> \<le> 10 ^ 100
             \<and> m \<noteq> 0"
  then have "\<not> cube_overflows effectiveRadius" by (intro no_overflow) simp
  then show "\<exists>s. init_fields particlesCount m effectiveRadius v T = Inr s
         \<and> length (pos s) = nat particlesCount \<and> length (vel s) = nat particlesCount
         \<and> mass s = m \<and> radius s = Fin effectiveRadius \<and> volume s = v \<and> temp s = T"
    using h by (simp add: init_fields_def)
qed

theorem constructor_does_not_validate_examples:
  "init_fields (- 1) 1 1 1 1 = Inl ValueError
   \<and> init_fields 45 0 1 1 1 = Inl ZeroDivisionError
   \<and> (\<exists>s. init_fields 45 (- 1) (- 1) (- 8) (- 300) = Inr s
         \<and> length (pos s) = 45 \<and> length (vel s) = 45
         \<and> mass s = - 1 \<and> radius s = Fin (- 1) \<and> volume s = - 8 \<and> temp s = - 300)"
proof -
  have a: "init_fields (- 1) 1 1 1 1 = Inl ValueError"
    using constructor_does_not_validate [of "- 1" 1 1 1 1] by simp
  have b: "init_fields 45 0 1 1 1 = Inl ZeroDivisionError"
    using constructor_does_not_validate [of 45 0 1 1 1] by simp
  have c: "\<exists>s. init_fields 45 (- 1) (- 1) (- 8) (- 300) = Inr s
         \<and> length (pos s) = nat 45 \<and> length (vel s) = nat 45
         \<and> mass s = - 1 \<and> radius s = Fin (- 1) \<and> volume s = - 8 \<and> temp s = - 300"
    using constructor_does_not_validate [of 45 "- 1" "- 1" "- 8" "- 300"] by simp
  show ?thesis using a b c by simp
qed

text \<open>
  C7: the code computes the thermal speed with the constant \<open>1.87e-23\<close>, not with
  the Boltzmann constant; with the default mass and temperature the value differs
  from the root-mean-square speed.
\<close>

theorem thermal_speed_uses_other_constant:
  "velNormalized (projr (init_fields 45 (5 / 10 ^ 20) (2 / 10 ^ 10) (1 / 10 ^ 23) 300))
     = Fin (sqrt (3 * (1.87 / 10 ^ 23) * 300 / (5 / 10 ^ 20)))
   \<and> sqrt (3 * (1.87 / 10 ^ 23) * 300 / (5 / 10 ^ 20)) \<noteq> rms_speed (5 / 10 ^ 20) 300"
  by (simp add: init_fields_def pow_half_def rms_speed_def boltzmann_def no_overflow)


section \<open>The placement of the particles\<close>














lemma root3_27 [simp]: "root 3 27 = 3"
proof -
  have "root 3 ((3::real) ^ 3) = 3" by (simp add: real_root_power_cancel)
  then show ?thesis by simp
qed

lemma root3_8 [simp]: "root 3 8 = 2"
proof -
  have "root 3 ((2::real) ^ 3) = 2" by (simp add: real_root_power_cancel)
  then show ?thesis by simp
qed

lemma eight_fields:
  "partCount eight = 8" "cubicParts1 eight = 2" "cubicParts2 eight = 4"
  "radius eight = Fin (1 / 4)" "sideLength eight = Fin 3"
  by (simp_all add: eight_def init_fields_def pow_third_def no_overflow)












section \<open>The border loop\<close>

text \<open>
  What lines 41 to 45 store when they run on a table: for \<open>eight\<close> (two cells of
  length 1.5 per axis) row 1 holds \<open>[1.5, 3]\<close> on all three axes and row 7 holds
  \<open>[10.5, 12]\<close> on all three axes, beyond the chamber of side 3.
\<close>

lemma fill_borders_eight:
  "map_option (\<lambda>tbl. (tbl ! 1, tbl ! 7))
     (partBelonging (projr (fill_borders (with_table eight))))
   = Some ([Fin 1.5, Fin 3, Fin 1.5, Fin 3, Fin 1.5, Fin 3, Fin 0],
           [Fin 10.5, Fin 12, Fin 10.5, Fin 12, Fin 10.5, Fin 12, Fin 0])"
  by (simp add: fill_borders_def with_table_def eight_fields set_borders_def table_set_def
      upt_rec numeral_eq_Suc)

end
